theory Spec2Isabelle
  imports Main
begin

section \<open>The background page of the moderator toolbox\<close>

text \<open>
  The background page (\<^verbatim>\<open>background.js\<close>, with its notification handlers in
  \<^verbatim>\<open>handlers/notifications.js\<close>) keeps its data in module-level variables and talks to
  the browser through callbacks. The embedding threads one record, \<open>bg_state\<close>, through
  every function: it holds the module-level variables (\<open>notificationData\<close>,
  \<open>TBsettingsObject\<close>, \<open>cachedata\<close>), the parts of the browser the code reads and writes
  (\<open>localStorage\<close>, the open tabs, the pending timers, the clock) and \<open>effects\<close>, the
  trace of calls made to the browser and the network, oldest first. What the browser
  answers (the permission level, the next UUID, the cookies, the outcome of a request,
  the built-ins \<^verbatim>\<open>atob\<close> and \<^verbatim>\<open>JSON.parse\<close>) is the record \<open>host\<close>.

  The source holds two revisions of \<^verbatim>\<open>background.js\<close>; the embedding follows the later one,
  whose listener is an \<^verbatim>\<open>async\<close> function and has the branches \<^verbatim>\<open>tb-reload\<close> and \<^verbatim>\<open>tb-request\<close>.
  The functions the two share are the same in both.

  A callback that the browser runs later is run at the point where the code hands it
  over: the page is single-threaded and none of the modelled callbacks is interleaved
  with another one that touches the same variables. Timers are the exception: they stay
  in \<open>timers\<close> until \<open>fire_timer\<close> runs them.
\<close>

subsection \<open>Values\<close>

text \<open>A JavaScript number, as far as the page uses one: an integer or \<^verbatim>\<open>NaN\<close>.\<close>

datatype jsnum = Num int | NaN

datatype jsval =
    JUndefined
  | JNull
  | JBool bool
  | JNumber jsnum
  | JString string
  | JArray "jsval list"
  | JObject "(string \<times> jsval) list"

text \<open>\<open>NoReason\<close> is the rejection \<^verbatim>\<open>reject()\<close> of \<open>sendNativeNotification\<close>, which carries no value.\<close>

datatype js_error = Error string | TypeError string | SyntaxError string | NoReason

text \<open>
  The message of the \<^verbatim>\<open>TypeError\<close> for a property read from \<^verbatim>\<open>undefined\<close> or \<^verbatim>\<open>null\<close>. The text
  is the engine's own; this is the one of V8.
\<close>

definition cannot_read :: "string \<Rightarrow> string \<Rightarrow> string" where
  "cannot_read v p =
     ''Cannot read properties of '' @ v @ '' (reading '' @ [CHR 0x27] @ p @ [CHR 0x27] @ '')''"

definition render_error :: "string \<Rightarrow> string \<Rightarrow> string" where
  "render_error name msg = (if msg = [] then name else name @ '': '' @ msg)"

fun error_toString :: "js_error \<Rightarrow> string" where
  "error_toString (Error m) = render_error ''Error'' m"
| "error_toString (TypeError m) = render_error ''TypeError'' m"
| "error_toString (SyntaxError m) = render_error ''SyntaxError'' m"
| "error_toString NoReason = ''undefined''"

text \<open>A promise as its caller sees it in the end; \<open>Pending\<close> is a promise that never settles.\<close>

datatype 'a promise = Resolved 'a | Rejected js_error | Pending

text \<open>\<^verbatim>\<open>a !== b\<close> on numbers: \<^verbatim>\<open>NaN\<close> differs from everything, itself included.\<close>

fun strict_neq :: "jsnum \<Rightarrow> jsnum \<Rightarrow> bool" where
  "strict_neq (Num a) (Num b) = (a \<noteq> b)"
| "strict_neq _ _ = True"

fun times :: "jsnum \<Rightarrow> int \<Rightarrow> jsnum" where
  "times (Num a) k = Num (a * k)"
| "times NaN k = NaN"

subsection \<open>Notifications, tabs, timers and the trace\<close>

datatype notification_type = Native | Page

record link =
  url :: string
  modHash :: "string option"
  markreadid :: "string option"

text \<open>The \<^verbatim>\<open>details\<close> of a \<^verbatim>\<open>tb-notification\<close> request.\<close>

record details = link +
  title :: string
  body :: string

text \<open>An entry of \<^verbatim>\<open>notificationData\<close>; \<open>ntype\<close> is the property \<^verbatim>\<open>type\<close>.\<close>

record metadata = link +
  ntype :: notification_type

datatype tier = Short | Long

text \<open>
  A value of the settings object is a number or a string; a key that is missing (or holds
  \<^verbatim>\<open>undefined\<close>) is \<open>None\<close>. An object is seen through its property \<^verbatim>\<open>tbsettings\<close>, the only
  one the page reads: \<open>None\<close> where the object has no such property.
\<close>

datatype setting = NumberSetting jsnum | StringSetting string

type_synonym tbsettings = "string \<rightharpoonup> setting"

record tab =
  tab_id :: nat
  tab_url :: string

datatype tab_message =
    ShowPageNotification string string string
  | ClearPageNotification string
  | CacheTimeout tier
  | GlobalEvent string "tbsettings option"

record ajax_options =
  ajax_method :: string
  ajax_url :: string
  ajax_data :: jsval
  bearer :: "jsval option"

datatype effect =
    NotificationsCreate string string string
  | NotificationsClear string
  | TabsSendMessage nat tab_message
  | Post string "string option" "string option"
  | TabsCreate "string option"
  | CookiesGet
  | Get string
  | Ajax ajax_options
  | RuntimeReload

datatype callback = ClearNotificationCb string | EmptyCacheTimeoutCb jsnum tier

record timer =
  handle :: nat
  due :: nat
  callback :: callback

record bg_state =
  notificationData :: "string \<rightharpoonup> metadata"
  TBsettingsObject :: "tbsettings option"
  timeouts :: "tier \<rightharpoonup> nat"
  currentDurations_short :: jsnum
  currentDurations_long :: jsnum
  localStorage :: "string \<rightharpoonup> string"
  tabs :: "tab list"
  timers :: "timer list"
  nextTimerId :: nat
  now :: nat
  cookieReads :: nat
  effects :: "effect list"

definition emit :: "effect \<Rightarrow> bg_state \<Rightarrow> bg_state" where
  "emit e st = st\<lparr>effects := effects st @ [e]\<rparr>"

subsection \<open>Timers\<close>

text \<open>
  The delay of \<^verbatim>\<open>setTimeout\<close> is converted to a signed 32-bit integer (\<^verbatim>\<open>NaN\<close> to 0, other
  values modulo \<open>2 ^ 32\<close>) and a negative delay counts as 0. Handles are fresh numbers.
\<close>

definition timeout_ms :: "jsnum \<Rightarrow> nat" where
  "timeout_ms d =
     (case d of
        NaN \<Rightarrow> 0
      | Num n \<Rightarrow> (let m = n mod 2 ^ 32 in if m < 2 ^ 31 then nat m else 0))"

definition setTimeout :: "callback \<Rightarrow> jsnum \<Rightarrow> bg_state \<Rightarrow> nat \<times> bg_state" where
  "setTimeout cb delay st =
     (nextTimerId st,
      st\<lparr>timers := timers st @
            [\<lparr>handle = nextTimerId st, due = now st + timeout_ms delay, callback = cb\<rparr>],
         nextTimerId := Suc (nextTimerId st)\<rparr>)"

text \<open>\<^verbatim>\<open>clearTimeout(undefined)\<close> and \<^verbatim>\<open>clearTimeout\<close> of a handle that is not pending do nothing.\<close>

definition clearTimeout :: "nat option \<Rightarrow> bg_state \<Rightarrow> bg_state" where
  "clearTimeout h st =
     (case h of
        None \<Rightarrow> st
      | Some i \<Rightarrow> st\<lparr>timers := filter (\<lambda>t. handle t \<noteq> i) (timers st)\<rparr>)"

subsection \<open>Tabs\<close>

text \<open>\<^verbatim>\<open>String.prototype.includes\<close>.\<close>

fun str_includes :: "string \<Rightarrow> string \<Rightarrow> bool" where
  "str_includes [] sub = (sub = [])"
| "str_includes (c # cs) sub = (take (length sub) (c # cs) = sub \<or> str_includes cs sub)"

text \<open>
  The match pattern \<^verbatim>\<open>https://*.reddit.com/*\<close> of \<^verbatim>\<open>chrome.tabs.query\<close>: scheme \<^verbatim>\<open>https\<close>, host
  \<^verbatim>\<open>reddit.com\<close> or one of its subdomains, any path.
\<close>

definition reddit_pattern :: "string \<Rightarrow> bool" where
  "reddit_pattern u =
     (take 8 u = ''https://'' \<and>
      (let rest = drop 8 u;
           host = takeWhile (\<lambda>c. c \<noteq> CHR ''/'') rest;
           path = dropWhile (\<lambda>c. c \<noteq> CHR ''/'') rest
       in path \<noteq> [] \<and>
          (host = ''reddit.com'' \<or>
           drop (length host - 11) host = ''.reddit.com'' \<and> 11 \<le> length host)))"

definition sendMessage_all :: "tab list \<Rightarrow> tab_message \<Rightarrow> bg_state \<Rightarrow> bg_state" where
  "sendMessage_all ts message st =
     st\<lparr>effects := effects st @ map (\<lambda>t. TabsSendMessage (tab_id t) message) ts\<rparr>"

subsection \<open>Sending and clearing notifications\<close>

datatype permission = Granted | Denied

text \<open>
  What the browser and the network answer. \<open>permissionLevel\<close> is \<open>None\<close> where
  \<^verbatim>\<open>chrome.notifications.getPermissionLevel\<close> is undefined; \<open>uuid\<close> is what \<^verbatim>\<open>uuidv4()\<close> returns
  next (the browser hands the same id to the callback of \<^verbatim>\<open>chrome.notifications.create\<close>), in
  the source a UUID and here any string but \<^verbatim>\<open>__proto__\<close>, so that storing a record under it
  makes an own property;
  \<open>cookieAt k\<close> is the answer to the \<open>k\<close>-th \<^verbatim>\<open>chrome.cookies.get\<close> and \<open>getDone k\<close> says
  whether the \<^verbatim>\<open>$.get\<close> that follows it succeeds; \<open>atob\<close> and \<open>JSON_parse\<close> are the built-ins,
  \<open>None\<close> and \<open>Inl\<close> (with the message of the \<^verbatim>\<open>SyntaxError\<close>) where they throw.
\<close>

record cookie =
  cookie_value :: string
  expirationDate :: "int option"

record jqXHR =
  status :: int
  getAllResponseHeaders :: string
  allResponseHeaders :: "(string \<times> jsval) list"

datatype ajax_outcome = Done jsval string jqXHR | Fail jqXHR string string

record host =
  permissionLevel :: "permission option"
  uuid :: string
  cookieAt :: "nat \<Rightarrow> cookie option"
  getDone :: "nat \<Rightarrow> bool"
  atob :: "string \<Rightarrow> string option"
  JSON_parse :: "string \<Rightarrow> string + jsval"
  JSON_stringify :: "jsval \<Rightarrow> string"
  ajax :: "ajax_options \<Rightarrow> ajax_outcome"

definition send :: "host \<Rightarrow> details \<Rightarrow> bg_state \<Rightarrow> string promise \<times> bg_state" where
  "send h d st =
     (let notificationID = uuid h;
          st1 = emit (NotificationsCreate notificationID (title d) (body d)) st
      in (Resolved notificationID,
          st1\<lparr>notificationData := (notificationData st1)(notificationID \<mapsto>
                \<lparr>url = url d, modHash = modHash d, markreadid = markreadid d,
                 ntype = Native\<rparr>)\<rparr>))"

definition sendNativeNotification ::
  "host \<Rightarrow> details \<Rightarrow> bg_state \<Rightarrow> string promise \<times> bg_state" where
  "sendNativeNotification h d st =
     (case permissionLevel h of
        None \<Rightarrow> send h d st
      | Some permission \<Rightarrow>
          if permission = Granted then send h d st else (Rejected NoReason, st))"

definition sendPageNotification ::
  "host \<Rightarrow> details \<Rightarrow> bg_state \<Rightarrow> string promise \<times> bg_state" where
  "sendPageNotification h d st =
     (let notificationID = uuid h;
          st1 = st\<lparr>notificationData := (notificationData st)(notificationID \<mapsto>
                  \<lparr>url = url d, modHash = modHash d, markreadid = markreadid d,
                   ntype = Page\<rparr>)\<rparr>;
          message = ShowPageNotification notificationID (title d) (body d)
      in (Resolved notificationID,
          sendMessage_all (filter (\<lambda>t. reddit_pattern (tab_url t)) (tabs st1)) message st1))"

text \<open>
  \<^verbatim>\<open>notificationData\<close> is a plain object, and \<open>notificationData st\<close> holds its own properties.
  A read \<^verbatim>\<open>notificationData[id]\<close> of an id that is not among them goes on to \<^verbatim>\<open>Object.prototype\<close>:
  for the name of one of its members the read gives that member, a function (for
  \<^verbatim>\<open>__proto__\<close>, the prototype itself), which is truthy and has none of the properties of a
  record. Assignment and \<^verbatim>\<open>delete\<close> act on the own properties only.
\<close>

definition Object_prototype :: "string list" where
  "Object_prototype =
     [''constructor'', ''__defineGetter__'', ''__defineSetter__'', ''hasOwnProperty'',
      ''__lookupGetter__'', ''__lookupSetter__'', ''isPrototypeOf'', ''propertyIsEnumerable'',
      ''toString'', ''valueOf'', ''__proto__'', ''toLocaleString'']"

datatype entry = Own metadata | Inherited

definition lookup :: "(string \<rightharpoonup> metadata) \<Rightarrow> string \<Rightarrow> entry option" where
  "lookup obj key =
     (case obj key of
        Some m \<Rightarrow> Some (Own m)
      | None \<Rightarrow> if key \<in> set Object_prototype then Some Inherited else None)"

text \<open>The properties \<^verbatim>\<open>type\<close>, \<^verbatim>\<open>markreadid\<close>, \<^verbatim>\<open>modHash\<close> and \<^verbatim>\<open>url\<close> of what a read gave.\<close>

fun entry_type :: "entry \<Rightarrow> notification_type option" where
  "entry_type (Own m) = Some (ntype m)"
| "entry_type Inherited = None"

fun entry_markreadid :: "entry \<Rightarrow> string option" where
  "entry_markreadid (Own m) = markreadid m"
| "entry_markreadid Inherited = None"

fun entry_modHash :: "entry \<Rightarrow> string option" where
  "entry_modHash (Own m) = modHash m"
| "entry_modHash Inherited = None"

fun entry_url :: "entry \<Rightarrow> string option" where
  "entry_url (Own m) = Some (url m)"
| "entry_url Inherited = None"

definition clearNotification :: "string \<Rightarrow> bg_state \<Rightarrow> bg_state" where
  "clearNotification notificationID st =
     (case lookup (notificationData st) notificationID of
        None \<Rightarrow> st
      | Some metadata \<Rightarrow>
          if entry_type metadata = Some Native then emit (NotificationsClear notificationID) st
          else
            (let message = ClearPageNotification notificationID;
                 st1 = sendMessage_all (filter (\<lambda>t. reddit_pattern (tab_url t)) (tabs st))
                         message st
             in st1\<lparr>notificationData := (notificationData st1)(notificationID := None)\<rparr>))"

text \<open>A string is truthy when it is defined and not empty.\<close>

definition truthy :: "string option \<Rightarrow> bool" where
  "truthy s = (case s of None \<Rightarrow> False | Some x \<Rightarrow> x \<noteq> [])"

text \<open>
  \<open>onClickNotification\<close> reads \<^verbatim>\<open>notificationData[notificationID].markreadid\<close> without a check:
  when the read of the id gives \<^verbatim>\<open>undefined\<close> the property access throws a \<^verbatim>\<open>TypeError\<close>.
\<close>

definition onClickNotification :: "string \<Rightarrow> bg_state \<Rightarrow> js_error + bg_state" where
  "onClickNotification notificationID st =
     (case lookup (notificationData st) notificationID of
        None \<Rightarrow> Inl (TypeError (cannot_read ''undefined'' ''markreadid''))
      | Some metadata \<Rightarrow>
          (let st1 = (if truthy (entry_markreadid metadata)
                      then emit (Post ''https://old.reddit.com/api/read_message''
                                   (entry_markreadid metadata) (entry_modHash metadata)) st
                      else st);
               st2 = emit (TabsCreate (entry_url metadata)) st1
           in Inr (clearNotification notificationID st2)))"

text \<open>The listener of \<^verbatim>\<open>chrome.notifications.onClosed\<close>.\<close>

definition onClosed :: "string \<Rightarrow> bg_state \<Rightarrow> bg_state" where
  "onClosed i st = st\<lparr>notificationData := (notificationData st)(i := None)\<rparr>"

subsection \<open>The cache timeouts\<close>

definition is_space :: "char \<Rightarrow> bool" where
  "is_space c = (c \<in> set [CHR 0x20, CHR 0x09, CHR 0x0A, CHR 0x0B, CHR 0x0C, CHR 0x0D])"

definition digit_value :: "char \<Rightarrow> nat" where
  "digit_value c =
     (let n = (of_char c :: nat)
      in if 48 \<le> n \<and> n \<le> 57 then n - 48
         else if 97 \<le> n \<and> n \<le> 122 then n - 87
         else if 65 \<le> n \<and> n \<le> 90 then n - 55
         else 36)"

text \<open>
  \<^verbatim>\<open>parseInt(s)\<close> with no radix: leading white space, a sign, \<^verbatim>\<open>0x\<close> for base 16, then the
  longest run of digits; \<^verbatim>\<open>NaN\<close> when there is none.
\<close>

definition parseInt :: "string \<Rightarrow> jsnum" where
  "parseInt s =
     (let s1 = dropWhile is_space s;
          sign = (if take 1 s1 = ''-'' then - 1 else (1::int));
          s2 = (if take 1 s1 = ''-'' \<or> take 1 s1 = ''+'' then drop 1 s1 else s1);
          radix = (if take 2 s2 = ''0x'' \<or> take 2 s2 = ''0X'' then 16 else (10::nat));
          s3 = (if radix = 16 then drop 2 s2 else s2);
          ds = takeWhile (\<lambda>c. digit_value c < radix) s3
      in if ds = [] then NaN
         else Num (sign * int (foldl (\<lambda>a c. a * radix + digit_value c) 0 ds)))"

definition emptyCacheTimeout :: "jsnum \<Rightarrow> tier \<Rightarrow> bg_state \<Rightarrow> bg_state" where
  "emptyCacheTimeout timeoutDuration cacheType st =
     (let st1 = clearTimeout (timeouts st cacheType) st;
          timeoutMS = times timeoutDuration (60 * 1000);
          st2 = (if cacheType = Short
                 then st1\<lparr>localStorage := (localStorage st1)
                        (''TBCache.Utils.noteCache'' \<mapsto> ''{}'',
                         ''TBCache.Utils.noConfig'' \<mapsto> ''[]'',
                         ''TBCache.Utils.noNotes'' \<mapsto> ''[]'')\<rparr>
                 else st1);
          st3 = (if cacheType = Long
                 then st2\<lparr>localStorage := (localStorage st2)
                        (''TBCache.Utils.configCache'' \<mapsto> ''{}'',
                         ''TBCache.Utils.rulesCache'' \<mapsto> ''{}'',
                         ''TBCache.Utils.noRules'' \<mapsto> ''[]'',
                         ''TBCache.Utils.moderatedSubs'' \<mapsto> ''[]'',
                         ''TBCache.Utils.moderatedSubsData'' \<mapsto> ''[]'')\<rparr>
                 else st2);
          st4 = sendMessage_all
                  (filter (\<lambda>t. str_includes (tab_url t) ''reddit.com'') (tabs st3))
                  (CacheTimeout cacheType) st3;
          (h, st5) = setTimeout (EmptyCacheTimeoutCb timeoutDuration cacheType) timeoutMS st4
      in st5\<lparr>timeouts := (timeouts st5)(cacheType \<mapsto> h)\<rparr>)"

text \<open>
  \<open>initCachetimeout\<close> reads \<^verbatim>\<open>TBsettingsObject.tbsettings[key]\<close>: with no \<^verbatim>\<open>tbsettings\<close>
  property the read throws. In the branch of the long tier the source assigns
  \<^verbatim>\<open>cachedata.currentDurations.short = storageShortLength\<close>; the model does the same.
\<close>

definition initCachetimeout :: "bool \<Rightarrow> bg_state \<Rightarrow> js_error + bg_state" where
  "initCachetimeout forceRefresh st =
     (case TBsettingsObject st of
        None \<Rightarrow> Inl (TypeError (cannot_read ''undefined'' ''Toolbox.Utils.shortLength''))
      | Some tbs \<Rightarrow>
          (let storageShortLengthKey = ''Toolbox.Utils.shortLength'';
               storageLongLengthKey = ''Toolbox.Utils.longLength'';
               storageShortLength =
                 (case tbs storageShortLengthKey of
                    None \<Rightarrow> Num 15
                  | Some (NumberSetting n) \<Rightarrow> n
                  | Some (StringSetting x) \<Rightarrow> parseInt x);
               st1 = (if strict_neq storageShortLength (currentDurations_short st) \<or> forceRefresh
                      then emptyCacheTimeout storageShortLength Short
                             (st\<lparr>currentDurations_short := storageShortLength\<rparr>)
                      else st);
               storageLongLength =
                 (case tbs storageLongLengthKey of
                    None \<Rightarrow> Num 45
                  | Some (NumberSetting n) \<Rightarrow> n
                  | Some (StringSetting x) \<Rightarrow> parseInt x);
               st2 = (if strict_neq storageLongLength (currentDurations_long st1) \<or> forceRefresh
                      then emptyCacheTimeout storageLongLength Long
                             (st1\<lparr>currentDurations_short := storageShortLength\<rparr>)
                      else st1)
           in Inr st2))"

text \<open>
  The callback of \<^verbatim>\<open>chrome.storage.local.get('tbsettings', ...)\<close> at start-up; \<open>sObject\<close> is the
  stored object seen through its property \<^verbatim>\<open>tbsettings\<close>.
\<close>

definition first_cache_init :: "tbsettings option \<Rightarrow> bg_state \<Rightarrow> js_error + bg_state" where
  "first_cache_init sObject st = initCachetimeout True (st\<lparr>TBsettingsObject := sObject\<rparr>)"

subsection \<open>Running a timer\<close>

definition run_callback :: "callback \<Rightarrow> bg_state \<Rightarrow> bg_state" where
  "run_callback cb st =
     (case cb of
        ClearNotificationCb i \<Rightarrow> clearNotification i st
      | EmptyCacheTimeoutCb d t \<Rightarrow> emptyCacheTimeout d t st)"

text \<open>A pending timer that is due leaves \<open>timers\<close> and its callback runs; any other handle does nothing.\<close>

definition fire_timer :: "nat \<Rightarrow> bg_state \<Rightarrow> bg_state" where
  "fire_timer h st =
     (case filter (\<lambda>t. handle t = h \<and> due t \<le> now st) (timers st) of
        [] \<Rightarrow> st
      | t # _ \<Rightarrow> run_callback (callback t)
                   (st\<lparr>timers := filter (\<lambda>t. handle t \<noteq> h) (timers st)\<rparr>))"

definition advance :: "nat \<Rightarrow> bg_state \<Rightarrow> bg_state" where
  "advance ms st = st\<lparr>now := now st + ms\<rparr>"

text \<open>The module-level variables as the script initialises them, in a browser with the given tabs and storage.\<close>

definition initial :: "tab list \<Rightarrow> (string \<rightharpoonup> string) \<Rightarrow> bg_state" where
  "initial ts storage =
     \<lparr>notificationData = Map.empty, TBsettingsObject = None, timeouts = Map.empty,
      currentDurations_short = Num 0, currentDurations_long = Num 0,
      localStorage = storage, tabs = ts, timers = [], nextTimerId = 1, now = 0,
      cookieReads = 0, effects = []\<rparr>"

subsection \<open>The OAuth tokens\<close>

definition is_base64 :: "char \<Rightarrow> bool" where
  "is_base64 c =
     (let n = (of_char c :: nat)
      in (65 \<le> n \<and> n \<le> 90) \<or> (97 \<le> n \<and> n \<le> 122) \<or> (48 \<le> n \<and> n \<le> 57) \<or>
         c = CHR ''+'' \<or> c = CHR ''/'')"

definition is_line_terminator :: "char \<Rightarrow> bool" where
  "is_line_terminator c = (c = CHR 0x0A \<or> c = CHR 0x0D)"

text \<open>
  \<^verbatim>\<open>s.replace(new RegExp('[^A-Za-z0-9+/].*?$'), '')\<close>: the string is cut at the first character
  outside the alphabet that has no line terminator after it (\<^verbatim>\<open>.\<close> does not match one).
\<close>

fun strip_invalid :: "string \<Rightarrow> string" where
  "strip_invalid [] = []"
| "strip_invalid (c # cs) =
     (if is_base64 c \<or> list_ex is_line_terminator cs then c # strip_invalid cs else [])"

text \<open>
  One unit of fuel is one run of the body of \<open>getOAuthTokens\<close>, that is one
  \<^verbatim>\<open>chrome.cookies.get\<close>; \<open>None\<close> is a run that needs more. The recursive call is
  \<^verbatim>\<open>getOAuthTokens(tries++)\<close>: the post-increment hands over the value \<open>tries\<close> had before.
  Its promise is chained with \<^verbatim>\<open>.then(resolve)\<close> only, so when the inner promise is rejected
  the outer one never settles, as when \<^verbatim>\<open>$.get\<close> fails (only \<^verbatim>\<open>.done\<close> is attached) or the
  decoding throws inside the cookie callback. The clock does not move during a run.
\<close>

fun getOAuthTokens :: "host \<Rightarrow> nat \<Rightarrow> nat \<Rightarrow> bg_state \<Rightarrow> (jsval promise \<times> bg_state) option" where
  "getOAuthTokens h 0 tries st = None"
| "getOAuthTokens h (Suc fuel) tries st =
     (let k = cookieReads st;
          rawCookie = cookieAt h k;
          st1 = emit CookiesGet (st\<lparr>cookieReads := Suc k\<rparr>);
          expired =
            (case rawCookie of
               None \<Rightarrow> False
             | Some c \<Rightarrow>
                 (case expirationDate c of
                    None \<Rightarrow> False
                  | Some e \<Rightarrow> int (now st) > e * 1000))
      in if (rawCookie = None \<or> expired) \<and> tries < 3 then
           (let st2 = emit (Get ''https://mod.reddit.com/mail/all'') st1
            in if getDone h k then
                 (case getOAuthTokens h fuel tries st2 of
                    None \<Rightarrow> None
                  | Some (Resolved tokens, st3) \<Rightarrow> Some (Resolved tokens, st3)
                  | Some (Rejected e, st3) \<Rightarrow> Some (Pending, st3)
                  | Some (Pending, st3) \<Rightarrow> Some (Pending, st3))
               else Some (Pending, st2))
         else if (rawCookie = None \<or> expired) \<and> tries > 2 then
           Some (Rejected (Error ''user not logged into new modmail''), st1)
         else
           (case rawCookie of
              None \<Rightarrow> Some (Pending, st1)
            | Some c \<Rightarrow>
                (let base64Cookie = strip_invalid (cookie_value c)
                 in case atob h base64Cookie of
                      None \<Rightarrow> Some (Pending, st1)
                    | Some tokenData \<Rightarrow>
                        (case JSON_parse h tokenData of
                           Inl msg \<Rightarrow> Some (Pending, st1)
                         | Inr tokens \<Rightarrow> Some (Resolved tokens, st1)))))"

subsection \<open>Requests\<close>

text \<open>\<^verbatim>\<open>s.split(ab)\<close> for a separator of two characters.\<close>

fun split2 :: "char \<Rightarrow> char \<Rightarrow> string \<Rightarrow> string \<Rightarrow> string list" where
  "split2 a b acc (x # y # rest) =
     (if x = a \<and> y = b then acc # split2 a b [] rest else split2 a b (acc @ [x]) (y # rest))"
| "split2 a b acc rest = [acc @ rest]"

text \<open>Assignment to a property of an object, and \<^verbatim>\<open>Map.prototype.set\<close>: a key that is there keeps its place.\<close>

fun assign :: "'k \<Rightarrow> 'v \<Rightarrow> ('k \<times> 'v) list \<Rightarrow> ('k \<times> 'v) list" where
  "assign k v [] = [(k, v)]"
| "assign k v (p # ps) = (if fst p = k then (k, v) # ps else p # assign k v ps)"

definition all_digits :: "string \<Rightarrow> bool" where
  "all_digits s = (s \<noteq> [] \<and> list_all (\<lambda>c. 48 \<le> (of_char c :: nat) \<and> (of_char c :: nat) \<le> 57) s)"

definition header_item :: "string \<Rightarrow> (string \<times> jsval) list \<Rightarrow> (string \<times> jsval) list" where
  "header_item item headerObject =
     (if item \<noteq> [] then
        (case split2 (CHR '':'') (CHR '' '') [] item of
           [] \<Rightarrow> headerObject
         | itemName # rest \<Rightarrow>
             (let itemValue =
                    (case rest of
                       [] \<Rightarrow> JUndefined
                     | x # _ \<Rightarrow>
                         if all_digits x
                         then JNumber (Num (int (foldl (\<lambda>a c. a * 10 + digit_value c) 0 x)))
                         else JString x)
              in assign itemName itemValue headerObject))
      else headerObject)"

definition makeHeaderObject :: "string \<Rightarrow> (string \<times> jsval) list" where
  "makeHeaderObject headerString =
     foldl (\<lambda>headerObject item. header_item item headerObject) []
       (split2 (CHR 0x0D) (CHR 0x0A) [] headerString)"

text \<open>What the listener answers with.\<close>

datatype response =
    RUndefined
  | RTrue
  | ErrorThrown string
  | CacheResult jsval "string option"
  | AjaxDone jsval string jqXHR
  | AjaxFail jqXHR string string
  | HandlerResult jsval

definition makeRequest :: "host \<Rightarrow> ajax_options \<Rightarrow> bg_state \<Rightarrow> response \<times> bg_state" where
  "makeRequest h options st =
     (let st1 = emit (Ajax options) st
      in case ajax h options of
           Done d textStatus x \<Rightarrow>
             (AjaxDone d textStatus
                (x\<lparr>allResponseHeaders := makeHeaderObject (getAllResponseHeaders x)\<rparr>), st1)
         | Fail x textStatus errorThrown \<Rightarrow>
             (AjaxFail (x\<lparr>allResponseHeaders := makeHeaderObject (getAllResponseHeaders x)\<rparr>)
                textStatus errorThrown, st1))"

text \<open>
  A message, with the properties the listener reads (one that a message lacks is not
  read for its action). \<open>request_id\<close> is the property \<^verbatim>\<open>id\<close> and \<open>request_method\<close> the
  property \<^verbatim>\<open>method\<close>; \<open>endpoint\<close> and \<open>storageKey\<close> are strings.
\<close>

record request =
  action :: string
  globalEvent :: string
  payload :: "tbsettings option"
  native :: bool
  details :: details
  request_id :: string
  request_method :: string
  endpoint :: string
  data :: jsval
  oauth :: bool
  storageKey :: string
  inputValue :: jsval

record sender =
  sender_tab :: "tab option"

text \<open>\<^verbatim>\<open>tokens.accessToken\<close>: reading a property of \<^verbatim>\<open>null\<close> or \<^verbatim>\<open>undefined\<close> throws.\<close>

definition accessToken :: "jsval \<Rightarrow> js_error + jsval" where
  "accessToken tokens =
     (case tokens of
        JObject ps \<Rightarrow> (case map_of ps ''accessToken'' of None \<Rightarrow> Inr JUndefined | Some v \<Rightarrow> Inr v)
      | JNull \<Rightarrow> Inl (TypeError (cannot_read ''null'' ''accessToken''))
      | JUndefined \<Rightarrow> Inl (TypeError (cannot_read ''undefined'' ''accessToken''))
      | _ \<Rightarrow> Inr JUndefined)"

definition tb_request ::
  "host \<Rightarrow> nat \<Rightarrow> request \<Rightarrow> bg_state \<Rightarrow> (response promise \<times> bg_state) option" where
  "tb_request h fuel request st =
     (if take 1 (endpoint request) \<noteq> ''/'' then
        Some (Resolved (ErrorThrown (''Request endpoint '' @ [CHR 0x27] @ endpoint request @
                [CHR 0x27] @ '' does not start with a slash'')), st)
      else
        (let host_name = ''https://'' @ (if oauth request then ''oauth'' else ''old'') @
                           ''.reddit.com'';
             options = \<lparr>ajax_method = request_method request, ajax_url = host_name @ endpoint request,
                        ajax_data = data request, bearer = None\<rparr>
         in if oauth request then
              (case getOAuthTokens h fuel 1 st of
                 None \<Rightarrow> None
               | Some (Resolved tokens, st1) \<Rightarrow>
                   (case accessToken tokens of
                      Inl error \<Rightarrow> Some (Resolved (ErrorThrown (error_toString error)), st1)
                    | Inr t \<Rightarrow>
                        (let (r, st2) = makeRequest h (options\<lparr>bearer := Some t\<rparr>) st1
                         in Some (Resolved r, st2)))
               | Some (Rejected error, st1) \<Rightarrow>
                   Some (Resolved (ErrorThrown (error_toString error)), st1)
               | Some (Pending, st1) \<Rightarrow> Some (Pending, st1))
            else
              (let (r, st1) = makeRequest h options st in Some (Resolved r, st1))))"

subsection \<open>The message listener\<close>

type_synonym handler = "request \<Rightarrow> sender \<Rightarrow> bg_state \<Rightarrow> response promise \<times> bg_state"

text \<open>
  \<^verbatim>\<open>messageHandlers\<close> is a \<^verbatim>\<open>Map\<close> from action names to handlers, here the list of its entries
  in insertion order: \<open>Map_get\<close> is \<^verbatim>\<open>Map.prototype.get\<close> and \<open>assign\<close> is \<^verbatim>\<open>Map.prototype.set\<close>.
\<close>

fun Map_get :: "('k \<times> 'v) list \<Rightarrow> 'k \<Rightarrow> 'v option" where
  "Map_get [] k = None"
| "Map_get (p # ps) k = (if fst p = k then Some (snd p) else Map_get ps k)"

definition tb_global :: "request \<Rightarrow> sender \<Rightarrow> bg_state \<Rightarrow> response promise \<times> bg_state" where
  "tb_global request sender st =
     (let message = GlobalEvent (globalEvent request) (payload request);
          st1 = (case sender_tab sender of
                   None \<Rightarrow> st
                 | Some stab \<Rightarrow>
                     sendMessage_all
                       (filter (\<lambda>t. tab_id stab \<noteq> tab_id t \<and> str_includes (tab_url t) ''reddit.com'')
                          (tabs st))
                       message st)
      in if globalEvent request = ''tb-settings-update'' then
           (let st2 = st1\<lparr>TBsettingsObject := payload request\<rparr>
            in case initCachetimeout False st2 of
                 Inl e \<Rightarrow> (Rejected e, st2)
               | Inr st3 \<Rightarrow> (Resolved RTrue, st3))
         else (Resolved RTrue, st1))"

definition tb_notification :: "host \<Rightarrow> request \<Rightarrow> bg_state \<Rightarrow> bg_state" where
  "tb_notification h request st =
     (let notificationTimeout = 6000;
          (sent, st1) = (if native request then sendNativeNotification h (details request) st
                         else sendPageNotification h (details request) st)
      in case sent of
           Resolved i \<Rightarrow> snd (setTimeout (ClearNotificationCb i) (Num notificationTimeout) st1)
         | Rejected e \<Rightarrow> st1
         | Pending \<Rightarrow> st1)"

definition tb_cache :: "host \<Rightarrow> request \<Rightarrow> bg_state \<Rightarrow> response promise \<times> bg_state" where
  "tb_cache h request st =
     (if request_method request = ''get'' then
        (case localStorage st (storageKey request) of
           None \<Rightarrow> (Resolved (CacheResult (inputValue request) None), st)
         | Some storageString \<Rightarrow>
             (let (v, errorThrown) =
                    (case JSON_parse h storageString of
                       Inr parsed \<Rightarrow> (parsed, None)
                     | Inl msg \<Rightarrow> (inputValue request, Some (error_toString (SyntaxError msg))));
                  v1 = (if v = JNull \<and> inputValue request \<noteq> JNull then inputValue request else v)
              in (Resolved (CacheResult v1 errorThrown), st)))
      else if request_method request = ''set'' then
        (Resolved RUndefined,
         st\<lparr>localStorage := (localStorage st)
               (storageKey request \<mapsto> JSON_stringify h (inputValue request))\<rparr>)
      else if request_method request = ''clear'' then
        (Resolved RUndefined, st\<lparr>localStorage := Map.empty\<rparr>)
      else (Resolved RUndefined, st))"

text \<open>
  The listener of \<^verbatim>\<open>browser.runtime.onMessage\<close>, an \<^verbatim>\<open>async\<close> function: what it returns resolves
  its promise and what it throws rejects it. The fuel is that of \<open>getOAuthTokens\<close>.
\<close>

definition onMessage ::
  "host \<Rightarrow> nat \<Rightarrow> (string \<times> handler) list \<Rightarrow> request \<Rightarrow> sender \<Rightarrow> bg_state
     \<Rightarrow> (response promise \<times> bg_state) option" where
  "onMessage h fuel messageHandlers request sender st =
     (case Map_get messageHandlers (action request) of
        Some handler \<Rightarrow> Some (handler request sender st)
      | None \<Rightarrow>
          if action request = ''tb-reload'' then Some (Resolved RUndefined, emit RuntimeReload st)
          else if action request = ''tb-global'' then Some (tb_global request sender st)
          else if action request = ''tb-cache-force-timeout'' then
            (case initCachetimeout True st of
               Inl e \<Rightarrow> Some (Rejected e, st)
             | Inr st1 \<Rightarrow> Some (Resolved RUndefined, st1))
          else if action request = ''tb-notification'' then
            Some (Resolved RUndefined, tb_notification h request st)
          else if action request = ''tb-page-notification-click'' then
            (case onClickNotification (request_id request) st of
               Inl e \<Rightarrow> Some (Rejected e, st)
             | Inr st1 \<Rightarrow> Some (Resolved RUndefined, st1))
          else if action request = ''tb-page-notification-close'' then
            Some (Resolved RUndefined, clearNotification (request_id request) st)
          else if action request = ''tb-request'' then tb_request h fuel request st
          else if action request = ''tb-cache'' then Some (tb_cache h request st)
          else Some (Resolved RUndefined, st))"

text \<open>The actions the listener has a branch for.\<close>

definition builtin_actions :: "string list" where
  "builtin_actions =
     [''tb-reload'', ''tb-global'', ''tb-cache-force-timeout'', ''tb-notification'',
      ''tb-page-notification-click'', ''tb-page-notification-close'', ''tb-request'',
      ''tb-cache'']"

subsection \<open>The handlers of \<^verbatim>\<open>handlers/notifications.js\<close>\<close>

text \<open>
  \<^verbatim>\<open>notifications.js\<close> has the same \<open>clearNotification\<close> and \<open>onClickNotification\<close> and registers
  its three handlers with \<^verbatim>\<open>messageHandlers.set\<close>.
\<close>

definition notification_handler :: "host \<Rightarrow> handler" where
  "notification_handler h = (\<lambda>request sender st. (Resolved RUndefined, tb_notification h request st))"

definition click_handler :: handler where
  "click_handler =
     (\<lambda>request sender st.
        case onClickNotification (request_id request) st of
          Inl e \<Rightarrow> (Rejected e, st)
        | Inr st1 \<Rightarrow> (Resolved RUndefined, st1))"

definition close_handler :: handler where
  "close_handler =
     (\<lambda>request sender st. (Resolved RUndefined, clearNotification (request_id request) st))"

definition register_notification_handlers ::
  "host \<Rightarrow> (string \<times> handler) list \<Rightarrow> (string \<times> handler) list" where
  "register_notification_handlers h messageHandlers =
     assign ''tb-page-notification-close'' close_handler
       (assign ''tb-page-notification-click'' click_handler
          (assign ''tb-notification'' (notification_handler h) messageHandlers))"

subsection \<open>Timers of a cache tier\<close>

definition is_tier_timer :: "tier \<Rightarrow> timer \<Rightarrow> bool" where
  "is_tier_timer t tm =
     (case callback tm of
        EmptyCacheTimeoutCb d t' \<Rightarrow> t' = t
      | ClearNotificationCb i \<Rightarrow> False)"

definition tier_timers :: "tier \<Rightarrow> bg_state \<Rightarrow> timer list" where
  "tier_timers t st = filter (is_tier_timer t) (timers st)"

text \<open>
  The state of the timers between two runs of the page's code: the handles of the
  pending timers are distinct and below the next fresh one, as are the handles in
  \<^verbatim>\<open>cachedata.timeouts\<close>, and a pending timer belongs to a tier exactly when
  \<^verbatim>\<open>cachedata.timeouts\<close> holds its handle for that tier.
\<close>

definition recorded :: "bg_state \<Rightarrow> timer \<Rightarrow> bool" where
  "recorded st tm =
     ((timeouts st Short = Some (handle tm)) = is_tier_timer Short tm \<and>
      (timeouts st Long = Some (handle tm)) = is_tier_timer Long tm)"

definition below :: "nat \<Rightarrow> nat option \<Rightarrow> bool" where
  "below n h = (case h of None \<Rightarrow> True | Some i \<Rightarrow> i < n)"

definition timers_ok :: "bg_state \<Rightarrow> bool" where
  "timers_ok st =
     (distinct (map handle (timers st)) \<and>
      list_all (\<lambda>tm. handle tm < nextTimerId st) (timers st) \<and>
      below (nextTimerId st) (timeouts st Short) \<and>
      below (nextTimerId st) (timeouts st Long) \<and>
      list_all (recorded st) (timers st))"

subsection \<open>A browser for the examples\<close>

text \<open>
  A browser of a user who is logged out: notifications are permitted, there is no token
  cookie and the request for the modmail page succeeds. Its \<^verbatim>\<open>JSON.parse\<close> is given for the
  strings the examples store.
\<close>

definition logged_out_host :: host where
  "logged_out_host =
     \<lparr>permissionLevel = Some Granted, uuid = ''n1'',
      cookieAt = (\<lambda>k. None), getDone = (\<lambda>k. True),
      atob = (\<lambda>s. None),
      JSON_parse = (\<lambda>s. if s = ''{}'' then Inr (JObject [])
                         else if s = ''[]'' then Inr (JArray [])
                         else Inl ''Unexpected token''),
      JSON_stringify = (\<lambda>v. ''null''),
      ajax = (\<lambda>options. Fail \<lparr>status = 0, getAllResponseHeaders = [], allResponseHeaders = []\<rparr>
                ''error'' [])\<rparr>"

definition example_details :: details where
  "example_details =
     \<lparr>url = ''https://old.reddit.com/message/unread'', modHash = None, markreadid = None,
      title = ''New message'', body = ''You have mail''\<rparr>"

definition example_request :: request where
  "example_request =
     \<lparr>action = ''tb-notification'', globalEvent = [], payload = None, native = False,
      details = example_details, request_id = ''n1'', request_method = ''get'', endpoint = ''api/foo'',
      data = JUndefined, oauth = True, storageKey = ''TBCache.Utils.noteCache'',
      inputValue = JArray []\<rparr>"

definition example_tab :: tab where
  "example_tab = \<lparr>tab_id = 7, tab_url = ''https://old.reddit.com/r/toolbox''\<rparr>"

definition example_sender :: sender where
  "example_sender = \<lparr>sender_tab = Some example_tab\<rparr>"

text \<open>A settings update from the example tab that sets the short length to 5 minutes and nothing else.\<close>

definition short_update :: request where
  "short_update =
     example_request\<lparr>action := ''tb-global'', globalEvent := ''tb-settings-update'',
       payload := Some [''Toolbox.Utils.shortLength'' \<mapsto> NumberSetting (Num 5)]\<rparr>"

text \<open>The page after start-up with no stored lengths, one reddit tab open.\<close>

definition started :: bg_state where
  "started =
     (case first_cache_init (Some Map.empty) (initial [example_tab] Map.empty) of
        Inl e \<Rightarrow> initial [example_tab] Map.empty
      | Inr st \<Rightarrow> st)"

text \<open>The page after a native and after an in-page notification was sent.\<close>

definition native_sent :: bg_state where
  "native_sent = tb_notification logged_out_host (example_request\<lparr>native := True\<rparr>)
                   (initial [example_tab] Map.empty)"

definition page_sent :: bg_state where
  "page_sent = tb_notification logged_out_host example_request (initial [example_tab] Map.empty)"

text \<open>The page after start-up with a value in the short tier that is not JSON.\<close>

definition corrupted :: bg_state where
  "corrupted = started\<lparr>localStorage := (localStorage started)
                 (''TBCache.Utils.noteCache'' \<mapsto> ''{oops'')\<rparr>"

text \<open>Two states with the same pending timers, next handle and recorded handles.\<close>

definition same_timers :: "bg_state \<Rightarrow> bg_state \<Rightarrow> bool" where
  "same_timers st st' = (timers st' = timers st \<and> nextTimerId st' = nextTimerId st \<and>
     timeouts st' = timeouts st)"

section \<open>Properties\<close>

subsection \<open>Evaluating the examples\<close>

lemmas cache_defs = first_cache_init_def initCachetimeout_def emptyCacheTimeout_def
  clearTimeout_def setTimeout_def sendMessage_all_def initial_def timeout_ms_def

lemmas notification_defs = tb_notification_def sendNativeNotification_def send_def
  sendPageNotification_def emit_def example_request_def example_details_def example_tab_def
  logged_out_host_def reddit_pattern_def lookup_def Object_prototype_def

subsection \<open>Credential acquisition\<close>

text \<open>
  With no usable cookie and \<open>tries\<close> below 3 the body asks for the modmail page and calls
  itself with the same \<open>tries\<close>; no amount of fuel lets such a run finish. Only a call that
  starts at 3 reaches the rejection.
\<close>

lemma getOAuthTokens_same_tries:
  "tries < 3 \<Longrightarrow> cookieAt h = (\<lambda>k. None) \<Longrightarrow> getDone h = (\<lambda>k. True) \<Longrightarrow>
   getOAuthTokens h fuel tries st = None"
  by (induction fuel arbitrary: st) (simp_all add: Let_def)

lemma getOAuthTokens_third_try:
  "getOAuthTokens (h\<lparr>cookieAt := (\<lambda>k. None)\<rparr>) (Suc fuel) 3 st =
     Some (Rejected (Error ''user not logged into new modmail''),
           emit CookiesGet (st\<lparr>cookieReads := Suc (cookieReads st)\<rparr>))"
  by (simp add: Let_def)

text \<open>
  Claim C1 says that with a token cookie that is always missing \<open>getOAuthTokens\<close> makes at
  most 3 attempts and then fails with a not-authenticated error. The code does not: called
  with its default \<open>tries = 1\<close> in a browser with no token cookie, where the request for the
  modmail page succeeds, it never returns, whatever the fuel.
\<close>

theorem getOAuthTokens_never_gives_up:
  "getOAuthTokens (h\<lparr>cookieAt := (\<lambda>k. None), getDone := (\<lambda>k. True)\<rparr>) fuel 1 st = None"
  by (rule getOAuthTokens_same_tries) simp_all

subsection \<open>Clearing a notification\<close>

lemma lookup_None: "lookup obj key = None \<longleftrightarrow> obj key = None \<and> key \<notin> set Object_prototype"
  by (simp add: lookup_def split: option.splits)

lemma lookup_Own: "obj key = Some m \<Longrightarrow> lookup obj key = Some (Own m)"
  by (simp add: lookup_def)

lemma lookup_Inherited:
  "obj key = None \<Longrightarrow> key \<in> set Object_prototype \<Longrightarrow> lookup obj key = Some Inherited"
  by (simp add: lookup_def)

lemma delete_missing: "notificationData st i = None \<Longrightarrow>
  st\<lparr>notificationData := (notificationData st)(i := None)\<rparr> = st"
proof -
  assume "notificationData st i = None"
  then have "(notificationData st)(i := None) = notificationData st"
    by (simp add: fun_upd_idem_iff)
  then show ?thesis by simp
qed

text \<open>
  For the name of a member of \<^verbatim>\<open>Object.prototype\<close> that has no record the read is truthy and
  its \<^verbatim>\<open>type\<close> is not \<^verbatim>\<open>'native'\<close>: every clear sends the clear message to the reddit tabs.
\<close>

lemma clearNotification_inherited:
  assumes "notificationData st i = None" and "i \<in> set Object_prototype"
  shows "clearNotification i st =
     sendMessage_all (filter (\<lambda>t. reddit_pattern (tab_url t)) (tabs st))
       (ClearPageNotification i) st"
proof -
  let ?st1 = "sendMessage_all (filter (\<lambda>t. reddit_pattern (tab_url t)) (tabs st))
                (ClearPageNotification i) st"
  have "notificationData ?st1 i = None"
    using assms(1) by (simp add: sendMessage_all_def)
  then have "?st1\<lparr>notificationData := (notificationData ?st1)(i := None)\<rparr> = ?st1"
    by (rule delete_missing)
  then show ?thesis
    using assms by (simp add: clearNotification_def lookup_Inherited Let_def)
qed

lemma clearNotification_constructor:
  "notificationData started ''constructor'' = None \<and>
   effects (clearNotification ''constructor'' started) =
     effects started @ [TabsSendMessage 7 (ClearPageNotification ''constructor'')]"
proof -
  have none: "notificationData started ''constructor'' = None"
    by (simp add: started_def cache_defs Let_def)
  have name: "''constructor'' \<in> set Object_prototype"
    by (simp add: Object_prototype_def)
  have tabs: "tabs started = [example_tab]"
    by (simp add: started_def cache_defs Let_def)
  show ?thesis
    using none tabs
    by (simp add: clearNotification_inherited [OF none name] sendMessage_all_def
        example_tab_def reddit_pattern_def)
qed

text \<open>
  Claim C2, as amended: \<open>clearNotification\<close> has no failing branch. For an id that has no
  record and is not the name of a member of \<^verbatim>\<open>Object.prototype\<close> it changes nothing. For an
  in-page notification it sends the clear message to the reddit tabs and deletes the
  record, so a second call with the same id (not such a name) changes nothing. For a
  native notification it calls \<^verbatim>\<open>chrome.notifications.clear\<close> and leaves the record in
  \<open>notificationData\<close>; the record goes when the \<^verbatim>\<open>onClosed\<close> listener runs, and after that a
  clear of the id (not such a name) changes nothing.
\<close>

theorem clearNotification_by_variant:
  "(notificationData st i = None \<and> i \<notin> set Object_prototype \<longrightarrow> clearNotification i st = st) \<and>
   (\<forall>m. notificationData st i = Some m \<and> ntype m = Page \<longrightarrow>
      clearNotification i st =
        (sendMessage_all (filter (\<lambda>t. reddit_pattern (tab_url t)) (tabs st))
           (ClearPageNotification i) st)\<lparr>notificationData := (notificationData st)(i := None)\<rparr> \<and>
      (i \<notin> set Object_prototype \<longrightarrow>
         clearNotification i (clearNotification i st) = clearNotification i st)) \<and>
   (\<forall>m. notificationData st i = Some m \<and> ntype m = Native \<longrightarrow>
      clearNotification i st = emit (NotificationsClear i) st \<and>
      notificationData (clearNotification i st) i = Some m) \<and>
   (i \<notin> set Object_prototype \<longrightarrow> clearNotification i (onClosed i st) = onClosed i st)"
  by (auto simp: clearNotification_def lookup_def sendMessage_all_def emit_def onClosed_def
      Let_def)

text \<open>
  The theorem at the three kinds of state: no record, an in-page record, a native record.
\<close>

theorem clearNotification_by_variant_witness:
  "notificationData started ''n1'' = None \<and> ''n1'' \<notin> set Object_prototype \<and>
   clearNotification ''n1'' started = started \<and>
   notificationData page_sent ''n1'' =
     Some \<lparr>url = ''https://old.reddit.com/message/unread'', modHash = None, markreadid = None,
           ntype = Page\<rparr> \<and>
   notificationData (clearNotification ''n1'' page_sent) ''n1'' = None \<and>
   clearNotification ''n1'' (clearNotification ''n1'' page_sent) =
     clearNotification ''n1'' page_sent \<and>
   notificationData native_sent ''n1'' =
     Some \<lparr>url = ''https://old.reddit.com/message/unread'', modHash = None, markreadid = None,
           ntype = Native\<rparr> \<and>
   clearNotification ''n1'' native_sent = emit (NotificationsClear ''n1'') native_sent \<and>
   notificationData (clearNotification ''n1'' native_sent) ''n1'' =
     Some \<lparr>url = ''https://old.reddit.com/message/unread'', modHash = None, markreadid = None,
           ntype = Native\<rparr> \<and>
   clearNotification ''n1'' (onClosed ''n1'' native_sent) = onClosed ''n1'' native_sent"
proof -
  let ?page = "\<lparr>url = ''https://old.reddit.com/message/unread'', modHash = None,
                markreadid = None, ntype = Page\<rparr>"
  let ?native = "\<lparr>url = ''https://old.reddit.com/message/unread'', modHash = None,
                  markreadid = None, ntype = Native\<rparr>"
  have name: "''n1'' \<notin> set Object_prototype"
    by (simp add: Object_prototype_def)
  have none: "notificationData started ''n1'' = None"
    by (simp add: started_def cache_defs Let_def)
  have page: "notificationData page_sent ''n1'' = Some ?page \<and> ntype ?page = Page"
    by (simp add: page_sent_def notification_defs cache_defs Let_def)
  have native: "notificationData native_sent ''n1'' = Some ?native \<and> ntype ?native = Native"
    by (simp add: native_sent_def notification_defs cache_defs Let_def)
  have cleared: "clearNotification ''n1'' started = started"
    using clearNotification_by_variant [of started "''n1''"] none name by blast
  have twice: "clearNotification ''n1'' page_sent =
        (sendMessage_all (filter (\<lambda>t. reddit_pattern (tab_url t)) (tabs page_sent))
           (ClearPageNotification ''n1'') page_sent)
          \<lparr>notificationData := (notificationData page_sent)(''n1'' := None)\<rparr> \<and>
      clearNotification ''n1'' (clearNotification ''n1'' page_sent) =
        clearNotification ''n1'' page_sent"
    using clearNotification_by_variant [of page_sent "''n1''"] page name by blast
  then have gone: "notificationData (clearNotification ''n1'' page_sent) ''n1'' = None"
    by simp
  have kept: "clearNotification ''n1'' native_sent = emit (NotificationsClear ''n1'') native_sent \<and>
      notificationData (clearNotification ''n1'' native_sent) ''n1'' = Some ?native"
    using clearNotification_by_variant [of native_sent "''n1''"] native by blast
  have closed: "clearNotification ''n1'' (onClosed ''n1'' native_sent) = onClosed ''n1'' native_sent"
    using clearNotification_by_variant [of native_sent "''n1''"] name by blast
  show ?thesis
    using none name cleared page twice gone native kept closed by blast
qed

text \<open>
  The claim as written fails for a native notification: after one clear the record is
  still there, and a second clear calls the browser a second time.
\<close>

theorem clearNotification_native_counterexample:
  "notificationData (clearNotification ''n1'' native_sent) ''n1'' \<noteq> None \<and>
   effects (clearNotification ''n1'' native_sent) =
     [NotificationsCreate ''n1'' ''New message'' ''You have mail'', NotificationsClear ''n1''] \<and>
   effects (clearNotification ''n1'' (clearNotification ''n1'' native_sent)) =
     [NotificationsCreate ''n1'' ''New message'' ''You have mail'', NotificationsClear ''n1'',
      NotificationsClear ''n1'']"
  by (simp add: native_sent_def clearNotification_def notification_defs cache_defs Let_def)

subsection \<open>The recorded durations\<close>

text \<open>
  \<open>initCachetimeout\<close> never assigns \<^verbatim>\<open>cachedata.currentDurations.long\<close>.
\<close>

lemma currentDurations_long_emptyCacheTimeout:
  "currentDurations_long (emptyCacheTimeout d t st) = currentDurations_long st"
  by (simp add: emptyCacheTimeout_def clearTimeout_def setTimeout_def sendMessage_all_def
      Let_def split: option.splits)

lemma initCachetimeout_keeps_long:
  "initCachetimeout forceRefresh st = Inr st' \<Longrightarrow>
   currentDurations_long st' = currentDurations_long st"
  by (auto simp: initCachetimeout_def Let_def currentDurations_long_emptyCacheTimeout
      split: option.splits)

text \<open>
  Claim C3 says that the duration applied to a tier is recorded as the one in effect, so
  that a settings update with the same duration leaves the tier alone. For the long tier
  the code does not: after start-up with the default lengths the recorded long duration
  is still 0, and an update with the same settings clears the long tier again and arms a
  new timer (handle 3 in place of 2), while the short tier keeps its timer.
\<close>

theorem long_duration_not_recorded:
  "currentDurations_short started = Num 15 \<and>
   currentDurations_long started = Num 0 \<and>
   timeouts started Short = Some 1 \<and>
   timeouts started Long = Some 2 \<and>
   (case initCachetimeout False started of
      Inl e \<Rightarrow> False
    | Inr st \<Rightarrow> timeouts st Short = Some 1 \<and> timeouts st Long = Some 3 \<and>
               currentDurations_long st = Num 0)"
  by (simp add: started_def cache_defs example_tab_def Let_def)

subsection \<open>The expiry of a notification\<close>

lemma filter_fresh:
  "list_all (\<lambda>tm. handle tm < n) ts \<Longrightarrow> filter (\<lambda>t. handle t \<noteq> n) ts = ts"
  by (induction ts) auto

lemma filter_fresh_none:
  "list_all (\<lambda>tm. handle tm < n) ts \<Longrightarrow> filter (\<lambda>t. handle t = n \<and> P t) ts = []"
  by (induction ts) auto

lemma timers_clearNotification: "timers (clearNotification i s) = timers s"
  by (simp add: clearNotification_def sendMessage_all_def emit_def Let_def split: option.splits)

text \<open>
  Claim C4, as amended: when the send succeeds, the handler of \<^verbatim>\<open>tb-notification\<close> arms
  exactly one timer, due 6000 ms after the send, that runs \<open>clearNotification\<close> for the id
  of the notification: it does not run earlier, and at 6000 ms it clears the notification
  if the entry is still there. A clear does not cancel it: \<open>clearNotification\<close> leaves the
  pending timers as they are.
\<close>

theorem notification_timer:
  assumes sent: "native request \<longrightarrow> permissionLevel h \<noteq> Some Denied"
    and fresh: "list_all (\<lambda>tm. handle tm < nextTimerId st) (timers st)"
  shows "timers (tb_notification h request st) =
           timers st @ [\<lparr>handle = nextTimerId st, due = now st + 6000,
                         callback = ClearNotificationCb (uuid h)\<rparr>] \<and>
         (\<forall>d<6000. fire_timer (nextTimerId st) (advance d (tb_notification h request st)) =
                     advance d (tb_notification h request st)) \<and>
         fire_timer (nextTimerId st) (advance 6000 (tb_notification h request st)) =
           clearNotification (uuid h)
             ((advance 6000 (tb_notification h request st))\<lparr>timers := timers st\<rparr>) \<and>
         (\<forall>i s. timers (clearNotification i s) = timers s)"
proof -
  let ?st' = "tb_notification h request st"
  let ?new = "\<lparr>handle = nextTimerId st, due = now st + 6000,
               callback = ClearNotificationCb (uuid h)\<rparr>"
  have perm: "native request \<Longrightarrow> permissionLevel h = None \<or> permissionLevel h = Some Granted"
    using sent by (cases "permissionLevel h") (auto intro: permission.exhaust)
  have tm: "timers ?st' = timers st @ [?new]" and nw: "now ?st' = now st"
    using perm
    by (auto simp: tb_notification_def sendNativeNotification_def send_def
        sendPageNotification_def sendMessage_all_def emit_def setTimeout_def timeout_ms_def Let_def)
  have early: "fire_timer (nextTimerId st) (advance d ?st') = advance d ?st'" if "d < 6000" for d
    using that fresh by (simp add: fire_timer_def advance_def tm nw filter_fresh_none)
  have at: "fire_timer (nextTimerId st) (advance 6000 ?st') =
            clearNotification (uuid h) ((advance 6000 ?st')\<lparr>timers := timers st\<rparr>)"
    using fresh
    by (simp add: fire_timer_def advance_def tm nw filter_fresh_none filter_fresh run_callback_def)
  show ?thesis
    using tm early at timers_clearNotification by blast
qed

text \<open>
  The theorem for the in-page notification of the example.
\<close>

theorem notification_timer_witness:
  "\<not> native example_request \<and>
   list_all (\<lambda>tm. handle tm < nextTimerId (initial [example_tab] Map.empty))
     (timers (initial [example_tab] Map.empty)) \<and>
   timers page_sent = [\<lparr>handle = 1, due = 6000, callback = ClearNotificationCb ''n1''\<rparr>] \<and>
   fire_timer 1 (advance 5999 page_sent) = advance 5999 page_sent \<and>
   fire_timer 1 (advance 6000 page_sent) =
     clearNotification ''n1'' ((advance 6000 page_sent)\<lparr>timers := []\<rparr>) \<and>
   timers (clearNotification ''n1'' page_sent) = timers page_sent"
proof -
  have hyp: "native example_request \<longrightarrow> permissionLevel logged_out_host \<noteq> Some Denied"
    "list_all (\<lambda>tm. handle tm < nextTimerId (initial [example_tab] Map.empty))
       (timers (initial [example_tab] Map.empty))"
    by (simp_all add: example_request_def initial_def)
  have "(5999::nat) < 6000" by simp
  with notification_timer [OF hyp] show ?thesis
    unfolding page_sent_def [symmetric]
    by (simp add: example_request_def initial_def logged_out_host_def)
qed

text \<open>
  The claim as written fails: the entry of the in-page notification is gone after a
  clear, and its timer is still pending.
\<close>

theorem clear_keeps_timer_counterexample:
  "notificationData page_sent ''n1'' \<noteq> None \<and>
   notificationData (clearNotification ''n1'' page_sent) ''n1'' = None \<and>
   timers (clearNotification ''n1'' page_sent) =
     [\<lparr>handle = 1, due = 6000, callback = ClearNotificationCb ''n1''\<rparr>]"
  by (simp add: page_sent_def clearNotification_def notification_defs cache_defs Let_def)

subsection \<open>Registering a handler\<close>

lemma Map_get_assign_same: "Map_get (assign k v m) k = Some v"
  by (induction m) auto

lemma Map_get_assign_other: "k' \<noteq> k \<Longrightarrow> Map_get (assign k v m) k' = Map_get m k'"
  by (induction m) auto

lemma keys_assign:
  "map fst (assign k v m) = (if k \<in> set (map fst m) then map fst m else map fst m @ [k])"
  by (induction m) auto

text \<open>
  Claim C5, as amended: \<^verbatim>\<open>messageHandlers\<close> holds at most one handler per action, and
  registering a handler for an action that has one raises no error: the new handler
  takes the place of the old one, the other actions keep theirs and no entry is added.
\<close>

theorem messageHandlers_set_replaces:
  "Map_get (assign k v m) k = Some v \<and>
   (\<forall>k'. k' \<noteq> k \<longrightarrow> Map_get (assign k v m) k' = Map_get m k') \<and>
   map fst (assign k v m) = (if k \<in> set (map fst m) then map fst m else map fst m @ [k]) \<and>
   (distinct (map fst m) \<longrightarrow> distinct (map fst (assign k v m)))"
  by (simp add: Map_get_assign_same Map_get_assign_other keys_assign)

text \<open>
  The theorem for a second registration of \<^verbatim>\<open>tb-notification\<close>.
\<close>

theorem messageHandlers_set_replaces_witness:
  "''tb-page-notification-click'' \<noteq> ''tb-notification'' \<and>
   distinct (map fst (register_notification_handlers logged_out_host [])) \<and>
   ''tb-notification'' \<in> set (map fst (register_notification_handlers logged_out_host [])) \<and>
   Map_get (assign ''tb-notification'' close_handler
              (register_notification_handlers logged_out_host [])) ''tb-notification'' =
     Some close_handler \<and>
   Map_get (assign ''tb-notification'' close_handler
              (register_notification_handlers logged_out_host [])) ''tb-page-notification-click'' =
     Map_get (register_notification_handlers logged_out_host []) ''tb-page-notification-click'' \<and>
   map fst (assign ''tb-notification'' close_handler
              (register_notification_handlers logged_out_host [])) =
     map fst (register_notification_handlers logged_out_host []) \<and>
   distinct (map fst (assign ''tb-notification'' close_handler
              (register_notification_handlers logged_out_host [])))"
  using messageHandlers_set_replaces [of "''tb-notification''" close_handler
      "register_notification_handlers logged_out_host []"]
  by (simp add: register_notification_handlers_def)

text \<open>
  The claim as written fails: after the handlers of \<^verbatim>\<open>notifications.js\<close> are registered, a
  second registration for \<^verbatim>\<open>tb-notification\<close> is accepted and the action has the other
  handler.
\<close>

lemma handlers_differ: "close_handler \<noteq> notification_handler logged_out_host"
proof
  assume "close_handler = notification_handler logged_out_host"
  then have "close_handler example_request example_sender (initial [] Map.empty) =
             notification_handler logged_out_host example_request example_sender (initial [] Map.empty)"
    by simp
  then have "timers (snd (close_handler example_request example_sender (initial [] Map.empty))) =
             timers (snd (notification_handler logged_out_host example_request example_sender (initial [] Map.empty)))"
    by simp
  then show False
    by (simp add: close_handler_def notification_handler_def timers_clearNotification initial_def
        tb_notification_def example_request_def sendPageNotification_def logged_out_host_def
        setTimeout_def sendMessage_all_def Let_def)
qed

theorem second_registration_counterexample:
  "Map_get (register_notification_handlers logged_out_host []) ''tb-notification'' =
     Some (notification_handler logged_out_host) \<and>
   Map_get (assign ''tb-notification'' close_handler
              (register_notification_handlers logged_out_host [])) ''tb-notification'' =
     Some close_handler \<and>
   close_handler \<noteq> notification_handler logged_out_host"
  using handlers_differ by (simp add: register_notification_handlers_def)

subsection \<open>Unknown actions\<close>

text \<open>
  Claim C6: a message whose action has no registered handler and no branch in the
  listener resolves to \<^verbatim>\<open>undefined\<close>; the promise is neither rejected nor left pending, and
  the state, the trace of calls included, is unchanged.
\<close>

theorem unknown_action_dropped:
  "Map_get messageHandlers (action request) = None \<Longrightarrow>
   action request \<notin> set builtin_actions \<Longrightarrow>
   onMessage h fuel messageHandlers request sender st = Some (Resolved RUndefined, st)"
  by (simp add: onMessage_def builtin_actions_def)

theorem unknown_action_dropped_witness:
  "Map_get (register_notification_handlers logged_out_host [])
     (action (example_request\<lparr>action := ''tb-some-new-action''\<rparr>)) = None \<and>
   action (example_request\<lparr>action := ''tb-some-new-action''\<rparr>) \<notin> set builtin_actions \<and>
   onMessage logged_out_host 0 (register_notification_handlers logged_out_host [])
     (example_request\<lparr>action := ''tb-some-new-action''\<rparr>) example_sender started =
     Some (Resolved RUndefined, started)"
  using unknown_action_dropped [of "register_notification_handlers logged_out_host []"
      "example_request\<lparr>action := ''tb-some-new-action''\<rparr>" logged_out_host 0 example_sender
      started]
  by (simp add: register_notification_handlers_def builtin_actions_def)

subsection \<open>One timer per tier\<close>

lemma ect_timers:
  "timers (emptyCacheTimeout d t st) =
     filter (\<lambda>tm. Some (handle tm) \<noteq> timeouts st t) (timers st) @
     [\<lparr>handle = nextTimerId st, due = now st + timeout_ms (times d (60 * 1000)),
       callback = EmptyCacheTimeoutCb d t\<rparr>]"
  by (simp add: emptyCacheTimeout_def clearTimeout_def setTimeout_def sendMessage_all_def
      Let_def split: option.splits)

lemma ect_timeouts: "timeouts (emptyCacheTimeout d t st) = (timeouts st)(t \<mapsto> nextTimerId st)"
  by (simp add: emptyCacheTimeout_def clearTimeout_def setTimeout_def sendMessage_all_def
      Let_def split: option.splits)

lemma ect_next: "nextTimerId (emptyCacheTimeout d t st) = Suc (nextTimerId st)"
  by (simp add: emptyCacheTimeout_def clearTimeout_def setTimeout_def sendMessage_all_def
      Let_def split: option.splits)

lemma timers_ok_emptyCacheTimeout:
  assumes "timers_ok st"
  shows "timers_ok (emptyCacheTimeout d t st)"
  using assms
  apply (cases t)
  apply (auto simp: timers_ok_def ect_timers ect_timeouts ect_next list_all_iff below_def
      recorded_def is_tier_timer_def distinct_map_filter split: option.splits callback.splits)
  done

lemma timers_ok_initial: "timers_ok (initial ts storage)"
  by (simp add: timers_ok_def initial_def below_def)

lemma timers_ok_remove:
  "timers_ok st \<Longrightarrow> timers_ok (st\<lparr>timers := filter P (timers st)\<rparr>)"
  by (simp add: timers_ok_def list_all_iff recorded_def distinct_map_filter)

lemma timers_ok_clearNotification: "timers_ok st \<Longrightarrow> timers_ok (clearNotification i st)"
  by (simp add: timers_ok_def list_all_iff recorded_def clearNotification_def
      sendMessage_all_def emit_def Let_def split: option.splits)

lemma timers_ok_fire_timer: "timers_ok st \<Longrightarrow> timers_ok (fire_timer h st)"
  by (simp add: fire_timer_def run_callback_def timers_ok_remove timers_ok_clearNotification
      timers_ok_emptyCacheTimeout split: list.splits callback.splits)

text \<open>
  Every run of the listener of \<^verbatim>\<open>background.js\<close> keeps \<open>timers_ok\<close>, as the timers do when
  they fire: it holds in every state the page reaches from \<open>initial\<close>.
\<close>

lemma same_timers_refl: "same_timers st st"
  by (simp add: same_timers_def)

lemma same_timers_emit: "same_timers st (emit e st)"
  by (simp add: same_timers_def emit_def)

lemma same_timers_trans: "same_timers a b \<Longrightarrow> same_timers b c \<Longrightarrow> same_timers a c"
  by (simp add: same_timers_def)

lemma same_timers_reads: "same_timers st (st\<lparr>cookieReads := n\<rparr>)"
  by (simp add: same_timers_def)

lemma timers_ok_same: "same_timers st st' \<Longrightarrow> timers_ok st \<Longrightarrow> timers_ok st'"
  by (simp add: same_timers_def timers_ok_def list_all_iff recorded_def)

lemma timers_ok_tb_notification: "timers_ok st \<Longrightarrow> timers_ok (tb_notification h request st)"
  by (auto simp: timers_ok_def list_all_iff recorded_def below_def is_tier_timer_def
      tb_notification_def sendNativeNotification_def send_def sendPageNotification_def
      sendMessage_all_def emit_def setTimeout_def Let_def
      split: option.splits)

lemma timers_ok_initCachetimeout:
  "timers_ok st \<Longrightarrow> initCachetimeout forceRefresh st = Inr st' \<Longrightarrow> timers_ok st'"
proof -
  have upd: "timers_ok (s\<lparr>currentDurations_short := d\<rparr>) = timers_ok s" for s d
    by (simp add: timers_ok_def list_all_iff recorded_def)
  show "timers_ok st \<Longrightarrow> initCachetimeout forceRefresh st = Inr st' \<Longrightarrow> timers_ok st'"
    by (auto simp: initCachetimeout_def Let_def timers_ok_emptyCacheTimeout upd
        split: option.splits)
qed

lemma getOAuthTokens_same_timers:
  "getOAuthTokens h fuel tries st = Some (r, st') \<Longrightarrow> same_timers st st'"
proof (induction fuel arbitrary: st r st')
  case 0
  then show ?case by simp
next
  case (Suc fuel)
  let ?st1 = "emit CookiesGet (st\<lparr>cookieReads := Suc (cookieReads st)\<rparr>)"
  let ?st2 = "emit (Get ''https://mod.reddit.com/mail/all'') ?st1"
  have f1: "same_timers st ?st1"
    using same_timers_reads same_timers_emit same_timers_trans by blast
  have f2: "same_timers st ?st2"
    using f1 same_timers_emit same_timers_trans by blast
  have "st' = ?st1 \<or> st' = ?st2 \<or> (\<exists>r'. getOAuthTokens h fuel tries ?st2 = Some (r', st'))"
    using Suc.prems
    by (simp add: Let_def split: if_splits option.splits promise.splits sum.splits prod.splits)
  then show ?case
    using f1 f2 Suc.IH same_timers_trans by blast
qed

lemma makeRequest_same_timers: "makeRequest h options st = (r, st') \<Longrightarrow> same_timers st st'"
  by (auto simp: makeRequest_def Let_def same_timers_emit split: ajax_outcome.splits)

lemma tb_request_same_timers:
  "tb_request h fuel request st = Some (r, st') \<Longrightarrow> same_timers st st'"
  by (auto simp: tb_request_def Let_def same_timers_refl
      split: if_splits option.splits promise.splits sum.splits prod.splits
      dest!: getOAuthTokens_same_timers makeRequest_same_timers intro: same_timers_trans)

lemma tb_cache_same_timers: "tb_cache h request st = (r, st') \<Longrightarrow> same_timers st st'"
  by (auto simp: tb_cache_def Let_def same_timers_def split: if_splits option.splits sum.splits)

lemma timers_ok_tb_global:
  "timers_ok st \<Longrightarrow> tb_global request sender st = (r, st') \<Longrightarrow> timers_ok st'"
proof -
  assume ok: "timers_ok st" and run: "tb_global request sender st = (r, st')"
  define st1 where "st1 = (case sender_tab sender of None \<Rightarrow> st
     | Some stab \<Rightarrow> sendMessage_all
         (filter (\<lambda>t. tab_id stab \<noteq> tab_id t \<and> str_includes (tab_url t) ''reddit.com'') (tabs st))
         (GlobalEvent (globalEvent request) (payload request)) st)"
  have "same_timers st st1"
    by (simp add: st1_def same_timers_def sendMessage_all_def split: option.splits)
  then have ok1: "timers_ok st1"
    using ok timers_ok_same by blast
  have "same_timers st1 (st1\<lparr>TBsettingsObject := payload request\<rparr>)"
    by (simp add: same_timers_def)
  then have ok2: "timers_ok (st1\<lparr>TBsettingsObject := payload request\<rparr>)"
    using ok1 timers_ok_same by blast
  from run have "st' = st1 \<or> st' = st1\<lparr>TBsettingsObject := payload request\<rparr> \<or>
      initCachetimeout False (st1\<lparr>TBsettingsObject := payload request\<rparr>) = Inr st'"
    by (auto simp: tb_global_def Let_def st1_def split: if_splits sum.splits)
  then show "timers_ok st'"
    using ok1 ok2 timers_ok_initCachetimeout by blast
qed

lemma timers_ok_onClickNotification:
  assumes ok: "timers_ok st" and run: "onClickNotification i st = Inr st'"
  shows "timers_ok st'"
proof (cases "lookup (notificationData st) i")
  case None
  with run show ?thesis
    by (simp add: onClickNotification_def)
next
  case (Some m)
  let ?st1 = "if truthy (entry_markreadid m)
              then emit (Post ''https://old.reddit.com/api/read_message''
                           (entry_markreadid m) (entry_modHash m)) st
              else st"
  let ?st2 = "emit (TabsCreate (entry_url m)) ?st1"
  have st': "st' = clearNotification i ?st2"
    using run Some by (simp add: onClickNotification_def Let_def)
  have "same_timers st ?st2"
    by (simp add: same_timers_def emit_def)
  then have "timers_ok ?st2"
    using ok by (rule timers_ok_same)
  then show ?thesis
    unfolding st' by (rule timers_ok_clearNotification)
qed

lemma timers_ok_onMessage:
  assumes ok: "timers_ok st" and run: "onMessage h fuel [] request sender st = Some (r, st')"
  shows "timers_ok st'"
proof -
  consider
      (same) "same_timers st st'"
    | (global) "tb_global request sender st = (r, st')"
    | (force) "initCachetimeout True st = Inr st'"
    | (notify) "st' = tb_notification h request st"
    | (click) "onClickNotification (request_id request) st = Inr st'"
    | (close) "st' = clearNotification (request_id request) st"
    | (request) "tb_request h fuel request st = Some (r, st')"
    | (cache) "tb_cache h request st = (r, st')"
    using run
    by (auto simp: onMessage_def same_timers_refl same_timers_emit split: if_splits sum.splits)
  then show ?thesis
  proof cases
    case same
    then show ?thesis using ok by (rule timers_ok_same)
  next
    case global
    with ok show ?thesis by (rule timers_ok_tb_global)
  next
    case force
    with ok show ?thesis by (rule timers_ok_initCachetimeout)
  next
    case notify
    with ok show ?thesis by (simp add: timers_ok_tb_notification)
  next
    case click
    with ok show ?thesis by (rule timers_ok_onClickNotification)
  next
    case close
    with ok show ?thesis by (simp add: timers_ok_clearNotification)
  next
    case request
    then have "same_timers st st'" by (rule tb_request_same_timers)
    then show ?thesis using ok by (rule timers_ok_same)
  next
    case cache
    then have "same_timers st st'" by (rule tb_cache_same_timers)
    then show ?thesis using ok by (rule timers_ok_same)
  qed
qed

lemma recorded_iff:
  "recorded st tm \<Longrightarrow> (timeouts st t = Some (handle tm)) = is_tier_timer t tm"
  by (cases t) (simp_all add: recorded_def)

lemma tier_unique: "is_tier_timer t tm \<Longrightarrow> is_tier_timer t' tm \<Longrightarrow> t = t'"
  by (auto simp: is_tier_timer_def split: callback.splits)

lemma filter_absorb:
  "(\<And>x. x \<in> set xs \<Longrightarrow> P x \<Longrightarrow> Q x) \<Longrightarrow> filter P (filter Q xs) = filter P xs"
  by (induction xs) auto

lemma filter_disjoint:
  "(\<And>x. x \<in> set xs \<Longrightarrow> P x \<Longrightarrow> \<not> Q x) \<Longrightarrow> filter P (filter Q xs) = []"
  by (induction xs) auto

lemma tier_timers_same:
  assumes "timers_ok st"
  shows "tier_timers t (emptyCacheTimeout d t st) =
     [\<lparr>handle = nextTimerId st, due = now st + timeout_ms (times d (60 * 1000)),
       callback = EmptyCacheTimeoutCb d t\<rparr>]"
proof -
  have rec: "recorded st tm" if "tm \<in> set (timers st)" for tm
    using assms that by (simp add: timers_ok_def list_all_iff)
  have "filter (is_tier_timer t) (filter (\<lambda>tm. Some (handle tm) \<noteq> timeouts st t) (timers st)) = []"
  proof (rule filter_disjoint)
    fix tm assume "tm \<in> set (timers st)" and "is_tier_timer t tm"
    then have "timeouts st t = Some (handle tm)"
      using rec recorded_iff by blast
    then show "\<not> Some (handle tm) \<noteq> timeouts st t" by simp
  qed
  then show ?thesis
    by (simp add: tier_timers_def ect_timers is_tier_timer_def)
qed

lemma tier_timers_other:
  assumes "timers_ok st" and "t' \<noteq> t"
  shows "tier_timers t' (emptyCacheTimeout d t st) = tier_timers t' st"
proof -
  have rec: "recorded st tm" if "tm \<in> set (timers st)" for tm
    using assms(1) that by (simp add: timers_ok_def list_all_iff)
  have "filter (is_tier_timer t') (filter (\<lambda>tm. Some (handle tm) \<noteq> timeouts st t) (timers st)) =
        filter (is_tier_timer t') (timers st)"
  proof (rule filter_absorb)
    fix tm assume tm: "tm \<in> set (timers st)" and other: "is_tier_timer t' tm"
    show "Some (handle tm) \<noteq> timeouts st t"
    proof
      assume "Some (handle tm) = timeouts st t"
      then have "is_tier_timer t tm"
        using rec [OF tm] recorded_iff [of st tm t] by simp
      with other assms(2) show False
        using tier_unique by blast
    qed
  qed
  then show ?thesis
    using assms(2) by (simp add: tier_timers_def ect_timers is_tier_timer_def)
qed

text \<open>
  From start-up on each tier has exactly one pending timer: the first
  \<open>initCachetimeout\<close> arms one for each tier, and every run of the listener of
  \<^verbatim>\<open>background.js\<close> and every timer that fires leaves one.
\<close>

lemma tier_timers_same_timers: "same_timers st st' \<Longrightarrow> tier_timers t st' = tier_timers t st"
  by (simp add: same_timers_def tier_timers_def)

lemma one_timer_emptyCacheTimeout:
  assumes "timers_ok st" and "length (tier_timers t st) = 1"
  shows "length (tier_timers t (emptyCacheTimeout d t' st)) = 1"
proof (cases "t = t'")
  case True
  then show ?thesis using assms(1) by (simp add: tier_timers_same)
next
  case False
  then show ?thesis using assms by (simp add: tier_timers_other)
qed

lemma one_timer_initCachetimeout:
  assumes ok: "timers_ok st" and one: "length (tier_timers t st) = 1"
    and run: "initCachetimeout forceRefresh st = Inr st'"
  shows "length (tier_timers t st') = 1"
proof -
  have upd: "timers_ok (s\<lparr>currentDurations_short := d\<rparr>) = timers_ok s"
    "tier_timers t (s\<lparr>currentDurations_short := d\<rparr>) = tier_timers t s" for s d
    by (simp_all add: timers_ok_def list_all_iff recorded_def tier_timers_def)
  from run obtain tbs where tbs: "TBsettingsObject st = Some tbs"
    by (auto simp: initCachetimeout_def split: option.splits)
  define short where "short = (case tbs ''Toolbox.Utils.shortLength'' of None \<Rightarrow> Num 15
      | Some (NumberSetting n) \<Rightarrow> n | Some (StringSetting x) \<Rightarrow> parseInt x)"
  define long where "long = (case tbs ''Toolbox.Utils.longLength'' of None \<Rightarrow> Num 45
      | Some (NumberSetting n) \<Rightarrow> n | Some (StringSetting x) \<Rightarrow> parseInt x)"
  define st1 where "st1 = (if strict_neq short (currentDurations_short st) \<or> forceRefresh
      then emptyCacheTimeout short Short (st\<lparr>currentDurations_short := short\<rparr>) else st)"
  have st': "st' = (if strict_neq long (currentDurations_long st1) \<or> forceRefresh
      then emptyCacheTimeout long Long (st1\<lparr>currentDurations_short := short\<rparr>) else st1)"
    using run tbs unfolding initCachetimeout_def Let_def st1_def short_def long_def
    by auto
  have ok1: "timers_ok st1" and one1: "length (tier_timers t st1) = 1"
    using ok one by (simp_all add: st1_def upd timers_ok_emptyCacheTimeout one_timer_emptyCacheTimeout)
  show ?thesis
    using ok1 one1 by (simp add: st' upd one_timer_emptyCacheTimeout)
qed

lemma one_timer_first_cache_init:
  assumes ok: "timers_ok st" and run: "first_cache_init sObject st = Inr st'"
  shows "length (tier_timers t st') = 1"
proof -
  have upd: "timers_ok (s\<lparr>currentDurations_short := d\<rparr>) = timers_ok s" for s d
    by (simp add: timers_ok_def list_all_iff recorded_def)
  have upd2: "timers_ok (s\<lparr>TBsettingsObject := x\<rparr>) = timers_ok s" for s x
    by (simp add: timers_ok_def list_all_iff recorded_def)
  from run obtain d1 d2 where st': "st' = emptyCacheTimeout d2 Long
      ((emptyCacheTimeout d1 Short (st\<lparr>TBsettingsObject := sObject, currentDurations_short := d1\<rparr>))
         \<lparr>currentDurations_short := d1\<rparr>)"
    by (auto simp: first_cache_init_def initCachetimeout_def Let_def split: option.splits)
  let ?s0 = "st\<lparr>TBsettingsObject := sObject, currentDurations_short := d1\<rparr>"
  let ?s1 = "(emptyCacheTimeout d1 Short ?s0)\<lparr>currentDurations_short := d1\<rparr>"
  have ok0: "timers_ok ?s0"
    using ok by (simp add: timers_ok_def list_all_iff recorded_def)
  then have ok1: "timers_ok ?s1"
    by (simp add: upd timers_ok_emptyCacheTimeout)
  have "length (tier_timers Short ?s1) = 1"
    using ok0 by (simp add: tier_timers_def [of _ "_\<lparr>currentDurations_short := _\<rparr>"]
        tier_timers_same [unfolded tier_timers_def])
  then show ?thesis
    using ok1 by (cases t) (simp_all add: st' tier_timers_same tier_timers_other)
qed

lemma tier_timers_cong: "timers st' = timers st \<Longrightarrow> tier_timers t st' = tier_timers t st"
  by (simp add: tier_timers_def)

lemma tb_global_cases:
  assumes "tb_global request sender st = (r, st')"
  shows "same_timers st st' \<or>
         (\<exists>st2. same_timers st st2 \<and> initCachetimeout False st2 = Inr st')"
proof -
  define st1 where "st1 = (case sender_tab sender of None \<Rightarrow> st
     | Some stab \<Rightarrow> sendMessage_all
         (filter (\<lambda>t. tab_id stab \<noteq> tab_id t \<and> str_includes (tab_url t) ''reddit.com'') (tabs st))
         (GlobalEvent (globalEvent request) (payload request)) st)"
  have s1: "same_timers st st1"
    by (simp add: st1_def same_timers_def sendMessage_all_def split: option.splits)
  have s2: "same_timers st (st1\<lparr>TBsettingsObject := payload request\<rparr>)"
    using s1 by (simp add: same_timers_def)
  from assms have "st' = st1 \<or> st' = st1\<lparr>TBsettingsObject := payload request\<rparr> \<or>
      initCachetimeout False (st1\<lparr>TBsettingsObject := payload request\<rparr>) = Inr st'"
    by (auto simp: tb_global_def Let_def st1_def split: if_splits sum.splits)
  then show ?thesis
    using s1 s2 by blast
qed

lemma timers_tb_notification:
  "tier_timers t (tb_notification h request st) = tier_timers t st"
  by (auto simp: tier_timers_def is_tier_timer_def tb_notification_def
      sendNativeNotification_def send_def sendPageNotification_def sendMessage_all_def emit_def
      setTimeout_def Let_def split: option.splits)

lemma timers_onClickNotification:
  "onClickNotification i st = Inr st' \<Longrightarrow> timers st' = timers st"
  by (auto simp: onClickNotification_def Let_def timers_clearNotification emit_def
      split: option.splits)

lemma one_timer_onMessage:
  assumes ok: "timers_ok st" and one: "length (tier_timers t st) = 1"
    and run: "onMessage h fuel [] request sender st = Some (r, st')"
  shows "length (tier_timers t st') = 1"
proof -
  consider
      (same) "same_timers st st'"
    | (global) "tb_global request sender st = (r, st')"
    | (force) "initCachetimeout True st = Inr st'"
    | (notify) "st' = tb_notification h request st"
    | (click) "onClickNotification (request_id request) st = Inr st'"
    | (close) "st' = clearNotification (request_id request) st"
    | (request) "tb_request h fuel request st = Some (r, st')"
    | (cache) "tb_cache h request st = (r, st')"
    using run
    by (auto simp: onMessage_def same_timers_refl same_timers_emit split: if_splits sum.splits)
  then show ?thesis
  proof cases
    case same
    then have "tier_timers t st' = tier_timers t st" by (rule tier_timers_same_timers)
    then show ?thesis using one by simp
  next
    case global
    then consider "same_timers st st'"
      | st2 where "same_timers st st2" "initCachetimeout False st2 = Inr st'"
      using tb_global_cases by blast
    then show ?thesis
    proof cases
      case 1
      then have "tier_timers t st' = tier_timers t st" by (rule tier_timers_same_timers)
      then show ?thesis using one by simp
    next
      case 2
      have "timers_ok st2" using 2(1) ok by (rule timers_ok_same)
      moreover have "length (tier_timers t st2) = 1"
        using tier_timers_same_timers [OF 2(1)] one by simp
      ultimately show ?thesis
        using 2(2) by (rule one_timer_initCachetimeout)
    qed
  next
    case force
    with ok one show ?thesis by (rule one_timer_initCachetimeout)
  next
    case notify
    then show ?thesis using one by (simp add: timers_tb_notification)
  next
    case click
    then have "timers st' = timers st" by (rule timers_onClickNotification)
    then have "tier_timers t st' = tier_timers t st" by (rule tier_timers_cong)
    then show ?thesis using one by simp
  next
    case close
    then show ?thesis using one by (simp add: tier_timers_def timers_clearNotification)
  next
    case request
    then have "same_timers st st'" by (rule tb_request_same_timers)
    then have "tier_timers t st' = tier_timers t st" by (rule tier_timers_same_timers)
    then show ?thesis using one by simp
  next
    case cache
    then have "same_timers st st'" by (rule tb_cache_same_timers)
    then have "tier_timers t st' = tier_timers t st" by (rule tier_timers_same_timers)
    then show ?thesis using one by simp
  qed
qed

lemma one_timer_fire_timer:
  assumes ok: "timers_ok st" and one: "length (tier_timers t st) = 1"
  shows "length (tier_timers t (fire_timer h st)) = 1"
proof (cases "filter (\<lambda>tm. handle tm = h \<and> due tm \<le> now st) (timers st)")
  case Nil
  then show ?thesis using one by (simp add: fire_timer_def)
next
  case (Cons tm rest)
  let ?rm = "st\<lparr>timers := filter (\<lambda>x. handle x \<noteq> h) (timers st)\<rparr>"
  have fired: "fire_timer h st = run_callback (callback tm) ?rm"
    using Cons by (simp add: fire_timer_def)
  have "tm \<in> set (filter (\<lambda>tm. handle tm = h \<and> due tm \<le> now st) (timers st))"
    using Cons by simp
  then have tm: "tm \<in> set (timers st)" and h: "handle tm = h"
    by simp_all
  have dist: "distinct (map handle (timers st))"
    using ok by (simp add: timers_ok_def)
  have only: "x = tm" if "x \<in> set (timers st)" "handle x = h" for x
    using that tm h dist by (simp add: distinct_map inj_on_def)
  have okrm: "timers_ok ?rm"
    using ok by (rule timers_ok_remove)
  have others: "tier_timers t ?rm = tier_timers t st" if "\<not> is_tier_timer t tm"
  proof -
    have "filter (is_tier_timer t) (filter (\<lambda>x. handle x \<noteq> h) (timers st)) =
          filter (is_tier_timer t) (timers st)"
    proof (rule filter_absorb)
      fix x assume "x \<in> set (timers st)" and "is_tier_timer t x"
      then show "handle x \<noteq> h"
        using only that by blast
    qed
    then show ?thesis by (simp add: tier_timers_def)
  qed
  show ?thesis
  proof (cases "callback tm")
    case (ClearNotificationCb i)
    then have "\<not> is_tier_timer t tm"
      by (simp add: is_tier_timer_def)
    then have "tier_timers t ?rm = tier_timers t st"
      by (rule others)
    then show ?thesis
      using one ClearNotificationCb
      by (simp add: fired run_callback_def tier_timers_def timers_clearNotification)
  next
    case (EmptyCacheTimeoutCb d t')
    show ?thesis
    proof (cases "t = t'")
      case True
      then show ?thesis
        using okrm EmptyCacheTimeoutCb by (simp add: fired run_callback_def tier_timers_same)
    next
      case False
      then have "\<not> is_tier_timer t tm"
        using EmptyCacheTimeoutCb by (auto simp: is_tier_timer_def)
      then have "tier_timers t ?rm = tier_timers t st"
        by (rule others)
      then show ?thesis
        using one okrm False EmptyCacheTimeoutCb
        by (simp add: fired run_callback_def tier_timers_other)
    qed
  qed
qed

text \<open>
  Claim C7 says that a tier has exactly one pending timer after any number of
  reconfigurations and that reconfiguring one tier never cancels or replaces the timer of
  the other. The page reconfigures through \<open>initCachetimeout\<close>, and there the second part
  fails: one minute after start-up a settings update that changes the short length only
  also cancels the long timer (handle 2) and arms a new one (handle 4) with a later due
  time, because the long duration in effect was never recorded.
\<close>

theorem short_update_replaces_long_timer:
  "tier_timers Long (advance 60000 started) =
     [\<lparr>handle = 2, due = 2700000, callback = EmptyCacheTimeoutCb (Num 45) Long\<rparr>] \<and>
   (case onMessage logged_out_host 0 [] short_update example_sender (advance 60000 started) of
      None \<Rightarrow> False
    | Some (r, st) \<Rightarrow>
        r = Resolved RTrue \<and>
        tier_timers Short st =
          [\<lparr>handle = 3, due = 360000, callback = EmptyCacheTimeoutCb (Num 5) Short\<rparr>] \<and>
        tier_timers Long st =
          [\<lparr>handle = 4, due = 2760000, callback = EmptyCacheTimeoutCb (Num 45) Long\<rparr>])"
  by (simp add: onMessage_def tb_global_def short_update_def example_request_def
      example_sender_def advance_def started_def cache_defs example_tab_def Let_def
      tier_timers_def is_tier_timer_def)

subsection \<open>Requests without a leading slash\<close>

text \<open>
  Claim C8: a \<^verbatim>\<open>tb-request\<close> whose endpoint does not begin with \<^verbatim>\<open>/\<close> resolves to an error
  result, with any fuel; the state is unchanged, so no cookie was read and no request was
  made.
\<close>

theorem tb_request_without_slash:
  "Map_get messageHandlers ''tb-request'' = None \<Longrightarrow>
   action request = ''tb-request'' \<Longrightarrow>
   \<forall>rest. endpoint request \<noteq> CHR ''/'' # rest \<Longrightarrow>
   onMessage h fuel messageHandlers request sender st =
     Some (Resolved (ErrorThrown (''Request endpoint '' @ [CHR 0x27] @ endpoint request @
             [CHR 0x27] @ '' does not start with a slash'')), st)"
  by (cases "endpoint request") (simp_all add: onMessage_def tb_request_def)

theorem tb_request_without_slash_witness:
  "Map_get [] ''tb-request'' = (None :: handler option) \<and>
   action (example_request\<lparr>action := ''tb-request''\<rparr>) = ''tb-request'' \<and>
   (\<forall>rest. endpoint (example_request\<lparr>action := ''tb-request''\<rparr>) \<noteq> CHR ''/'' # rest) \<and>
   onMessage logged_out_host 0 [] (example_request\<lparr>action := ''tb-request''\<rparr>)
       example_sender started =
     Some (Resolved (ErrorThrown
       (''Request endpoint '' @ [CHR 0x27] @ ''api/foo'' @ [CHR 0x27] @
        '' does not start with a slash'')), started)"
  using tb_request_without_slash [of "[]" "example_request\<lparr>action := ''tb-request''\<rparr>"
      logged_out_host 0 example_sender started]
  by (simp add: example_request_def)

subsection \<open>Reading a corrupted cache value\<close>

text \<open>
  Claim C9: a \<^verbatim>\<open>tb-cache\<close> get of a stored string that \<^verbatim>\<open>JSON.parse\<close> rejects resolves to the
  value the caller supplied together with the text of the error, which is not empty.
\<close>

theorem cache_get_corrupted:
  "Map_get messageHandlers ''tb-cache'' = None \<Longrightarrow>
   action request = ''tb-cache'' \<Longrightarrow>
   request_method request = ''get'' \<Longrightarrow>
   localStorage st (storageKey request) = Some storageString \<Longrightarrow>
   JSON_parse h storageString = Inl msg \<Longrightarrow>
   onMessage h fuel messageHandlers request sender st =
     Some (Resolved (CacheResult (inputValue request) (Some (error_toString (SyntaxError msg)))),
           st) \<and>
   error_toString (SyntaxError msg) \<noteq> []"
  by (simp add: onMessage_def tb_cache_def render_error_def)

theorem cache_get_corrupted_witness:
  "Map_get [] ''tb-cache'' = (None :: handler option) \<and>
   action (example_request\<lparr>action := ''tb-cache''\<rparr>) = ''tb-cache'' \<and>
   request_method (example_request\<lparr>action := ''tb-cache''\<rparr>) = ''get'' \<and>
   localStorage corrupted (storageKey (example_request\<lparr>action := ''tb-cache''\<rparr>)) =
     Some ''{oops'' \<and>
   JSON_parse logged_out_host ''{oops'' = Inl ''Unexpected token'' \<and>
   onMessage logged_out_host 0 [] (example_request\<lparr>action := ''tb-cache''\<rparr>) example_sender
       corrupted =
     Some (Resolved (CacheResult (JArray []) (Some ''SyntaxError: Unexpected token'')), corrupted)"
  using cache_get_corrupted [of "[]" "example_request\<lparr>action := ''tb-cache''\<rparr>" corrupted
      "''{oops''" logged_out_host "''Unexpected token''" 0 example_sender]
  by (simp add: example_request_def corrupted_def logged_out_host_def render_error_def)

subsection \<open>Clicking a notification that is gone\<close>

text \<open>
  Claim C10, as amended: for an id that has no record and is not the name of a member of
  \<^verbatim>\<open>Object.prototype\<close>, \<open>onClickNotification\<close> throws a \<^verbatim>\<open>TypeError\<close>, where \<open>clearNotification\<close>
  and the \<^verbatim>\<open>onClosed\<close> listener change nothing.
\<close>

theorem click_needs_record:
  "notificationData st notificationID = None \<Longrightarrow>
   notificationID \<notin> set Object_prototype \<Longrightarrow>
   (\<exists>msg. onClickNotification notificationID st = Inl (TypeError msg)) \<and>
   clearNotification notificationID st = st \<and>
   onClosed notificationID st = st"
proof -
  assume none: "notificationData st notificationID = None"
    and name: "notificationID \<notin> set Object_prototype"
  have read: "lookup (notificationData st) notificationID = None"
    using none name by (simp add: lookup_None)
  have "onClosed notificationID st = st"
    using none by (simp add: onClosed_def delete_missing)
  with read show ?thesis
    by (simp add: onClickNotification_def clearNotification_def)
qed

theorem click_needs_record_witness:
  "notificationData started ''n1'' = None \<and> ''n1'' \<notin> set Object_prototype \<and>
   onClickNotification ''n1'' started =
     Inl (TypeError (cannot_read ''undefined'' ''markreadid'')) \<and>
   clearNotification ''n1'' started = started \<and>
   onClosed ''n1'' started = started"
proof -
  have none: "notificationData started ''n1'' = None"
    by (simp add: started_def cache_defs Let_def)
  have name: "''n1'' \<notin> set Object_prototype"
    by (simp add: Object_prototype_def)
  have "lookup (notificationData started) ''n1'' = None"
    using none name by (simp add: lookup_None)
  then have "onClickNotification ''n1'' started =
      Inl (TypeError (cannot_read ''undefined'' ''markreadid''))"
    by (simp add: onClickNotification_def)
  with click_needs_record [OF none name] none name show ?thesis
    by simp
qed

text \<open>
  The claim as written fails for an id that has no record and is the name of a member of
  \<^verbatim>\<open>Object.prototype\<close>: a click on \<^verbatim>\<open>constructor\<close> throws nothing; it opens a tab with no url and
  sends the clear message to the reddit tab.
\<close>

theorem click_inherited_counterexample:
  "notificationData started ''constructor'' = None \<and>
   onClickNotification ''constructor'' started =
     Inr (started\<lparr>effects := effects started @
            [TabsCreate None, TabsSendMessage 7 (ClearPageNotification ''constructor'')]\<rparr>)"
proof -
  have none: "notificationData started ''constructor'' = None"
    by (simp add: started_def cache_defs Let_def)
  have name: "''constructor'' \<in> set Object_prototype"
    by (simp add: Object_prototype_def)
  have tabs: "tabs started = [example_tab]"
    by (simp add: started_def cache_defs Let_def)
  have read: "lookup (notificationData started) ''constructor'' = Some Inherited"
    using none name by (rule lookup_Inherited)
  have "clearNotification ''constructor'' (emit (TabsCreate None) started) =
      sendMessage_all (filter (\<lambda>t. reddit_pattern (tab_url t)) (tabs (emit (TabsCreate None) started)))
        (ClearPageNotification ''constructor'') (emit (TabsCreate None) started)"
    using none name by (intro clearNotification_inherited) (simp_all add: emit_def)
  with read none tabs show ?thesis
    by (simp add: onClickNotification_def truthy_def Let_def emit_def sendMessage_all_def
        example_tab_def reddit_pattern_def)
qed

end
